theory Spec2Isabelle
  imports Main
begin

section \<open>The animated keyboard hook (src/hooks/useAnimatedKeyboard.ts)\<close>

text \<open>
  The hook keeps two cells on the UI thread: \<open>state\<close>, the keyboard state that the
  bottom sheet animates against, and \<open>temporaryCachedState\<close>, a single slot for a show
  event that arrived before the focused input was known. Both cells are only touched by
  the worklet \<open>handleKeyboardEvent\<close> (and, for \<open>target\<close> and
  \<open>heightWithinContainer\<close>, by the text input and the sheet, which live in other
  files). The model threads the pair of cells through every operation; events are
  applied in the order in which they reach the UI thread.

  JavaScript numbers are modelled as \<open>int\<close>: heights are layout units, durations are
  milliseconds, and on integers of that size the additions and subtractions of the
  source are exact.
\<close>

subsection \<open>Data\<close>

text \<open>
  Modelled from the spec: \<open>KEYBOARD_STATUS\<close> is declared in \<open>../constants\<close>, which is
  not among the sources; the spec lists its three members.
\<close>

datatype KEYBOARD_STATUS = UNDETERMINED | SHOWN | HIDDEN

text \<open>The easing curves of React Native's \<open>KeyboardEventEasing\<close>.\<close>

datatype KeyboardEventEasing = easeIn | easeInEaseOut | easeOut | linear | keyboard

text \<open>
  The identifier of the focused input. The hook registers text input nodes as numbers
  (\<open>textInputNodesRef\<close> is a \<open>Set<number>\<close>); the spec's example names an input
  \<open>"A"\<close>. Both kinds are kept, because the source tests the target with JavaScript
  truthiness (\<open>!currentState.target\<close>, \<open>!result\<close>): \<open>undefined\<close>, the number
  \<open>0\<close> and the empty string count as "no target".
\<close>

datatype ident = Num int | Str string

fun truthy :: "ident option \<Rightarrow> bool" where
  "truthy None = False"
| "truthy (Some (Num n)) = (n \<noteq> 0)"
| "truthy (Some (Str s)) = (s \<noteq> [])"

text \<open>
  Modelled from the spec: \<open>KeyboardState\<close> is declared in \<open>../types\<close>, which is not
  among the sources; its fields are the ones the spec lists and the source reads and
  writes. The cached value has the type
  \<open>Omit<KeyboardState, 'heightWithinContainer' | 'target'>\<close>, so the state is the
  cached record extended by those two fields.

  \<open>duration\<close> and \<open>easing\<close> are optional in the model although TypeScript declares
  them \<open>number\<close> and \<open>KeyboardEventEasing\<close>: the types are erased at run time, the
  keyboard-controller handlers take \<open>event: any\<close> and guard \<open>event.duration\<close> with
  \<open>??\<close>, and whatever a handler passes is stored as it is. \<open>None\<close> is
  \<open>undefined\<close> (or \<open>null\<close>).
\<close>

record CachedState =
  status :: KEYBOARD_STATUS
  height :: int
  duration :: "int option"
  easing :: "KeyboardEventEasing option"

record KeyboardState = CachedState +
  heightWithinContainer :: int
  target :: "ident option"

text \<open>The two shared values of the hook.\<close>

record AnimatedKeyboard =
  state :: KeyboardState
  temporaryCachedState :: "CachedState option"

definition INITIAL_STATE :: KeyboardState where
  "INITIAL_STATE =
     \<lparr>status = UNDETERMINED, height = 0, duration = Some 500, easing = Some keyboard,
      heightWithinContainer = 0, target = None\<rparr>"

text \<open>\<open>useSharedValue(INITIAL_STATE)\<close> and \<open>useSharedValue(null)\<close>.\<close>

definition useAnimatedKeyboard :: AnimatedKeyboard where
  "useAnimatedKeyboard = \<lparr>state = INITIAL_STATE, temporaryCachedState = None\<rparr>"

subsection \<open>The worklet\<close>

text \<open>
  \<open>handleKeyboardEvent(status, height, duration, easing, bottomOffset?)\<close>. A show
  event without a target is parked in the cache and the state is left alone. Otherwise
  the cache is cleared and a new state is committed: the height is the event's height
  on \<open>SHOWN\<close> and the old height otherwise, plus \<open>bottomOffset\<close> when that is
  given and not zero (\<open>if (bottomOffset)\<close>).
\<close>

definition handleKeyboardEvent ::
  "KEYBOARD_STATUS \<Rightarrow> int \<Rightarrow> int option \<Rightarrow> KeyboardEventEasing option \<Rightarrow> int option \<Rightarrow>
   AnimatedKeyboard \<Rightarrow> AnimatedKeyboard" where
  "handleKeyboardEvent st h d e bottomOffset k =
     (let currentState = state k in
      if st = SHOWN \<and> \<not> truthy (target currentState) then
        k\<lparr>temporaryCachedState := Some \<lparr>status = st, height = h, duration = d, easing = e\<rparr>\<rparr>
      else
        (let adjustedHeight = (if st = SHOWN then h else height currentState);
             adjustedHeight' =
               (case bottomOffset of
                  None \<Rightarrow> adjustedHeight
                | Some b \<Rightarrow> if b \<noteq> 0 then adjustedHeight + b else adjustedHeight)
         in \<lparr>state =
               \<lparr>status = st, height = adjustedHeight', duration = d, easing = e,
                heightWithinContainer = heightWithinContainer currentState,
                target = target currentState\<rparr>,
             temporaryCachedState = None\<rparr>))"

subsection \<open>The event handlers\<close>

text \<open>
  The payload of react-native-keyboard-controller's \<open>KeyboardEvents\<close> (typed
  \<open>any\<close> in the source): the handlers read \<open>height\<close> and \<open>duration\<close>.
\<close>

record ControllerEvent =
  kc_height :: int
  kc_duration :: "int option"

text \<open>
  React Native's \<open>KeyboardEvent\<close>: the handlers read \<open>endCoordinates.height\<close>,
  \<open>endCoordinates.screenY\<close>, \<open>duration\<close> and \<open>easing\<close>. The type declares
  \<open>duration\<close> and \<open>easing\<close> as required; the payload record keeps them optional
  so that the model shows what the handlers do with an event that lacks them.
\<close>

record KeyboardMetrics =
  ec_height :: int
  screenY :: int

record KeyboardEvent =
  endCoordinates :: KeyboardMetrics
  ev_duration :: "int option"
  ev_easing :: "KeyboardEventEasing option"

text \<open>
  The handlers subscribed when \<open>useKeyboardControllerEvents\<close> holds:
  \<open>event.duration ?? 250\<close>, the fixed easing \<open>'keyboard'\<close>, offset \<open>0\<close> on
  show and none on hide.
\<close>

definition handleOnKeyboardShow_controller :: "ControllerEvent \<Rightarrow> AnimatedKeyboard \<Rightarrow> AnimatedKeyboard" where
  "handleOnKeyboardShow_controller event k =
     handleKeyboardEvent SHOWN (kc_height event)
       (Some (case kc_duration event of None \<Rightarrow> 250 | Some d \<Rightarrow> d))
       (Some keyboard) (Some 0) k"

definition handleOnKeyboardHide_controller :: "ControllerEvent \<Rightarrow> AnimatedKeyboard \<Rightarrow> AnimatedKeyboard" where
  "handleOnKeyboardHide_controller event k =
     handleKeyboardEvent HIDDEN (kc_height event)
       (Some (case kc_duration event of None \<Rightarrow> 250 | Some d \<Rightarrow> d))
       (Some keyboard) None k"

text \<open>
  The fallback handlers on React Native's \<open>Keyboard\<close>. \<open>SCREEN_HEIGHT\<close> comes from
  \<open>../constants\<close>, which is not among the sources, and is a parameter here.
\<close>

definition handleOnKeyboardShow :: "int \<Rightarrow> KeyboardEvent \<Rightarrow> AnimatedKeyboard \<Rightarrow> AnimatedKeyboard" where
  "handleOnKeyboardShow SCREEN_HEIGHT event k =
     handleKeyboardEvent SHOWN (ec_height (endCoordinates event))
       (ev_duration event) (ev_easing event)
       (Some (SCREEN_HEIGHT - ec_height (endCoordinates event) - screenY (endCoordinates event)))
       k"

definition handleOnKeyboardHide :: "KeyboardEvent \<Rightarrow> AnimatedKeyboard \<Rightarrow> AnimatedKeyboard" where
  "handleOnKeyboardHide event k =
     handleKeyboardEvent HIDDEN (ec_height (endCoordinates event))
       (ev_duration event) (ev_easing event) None k"

subsection \<open>The reaction on the target\<close>

text \<open>
  The callback of \<open>useAnimatedReaction\<close>: \<open>result\<close> is \<open>state.value.target\<close> as
  it is now, \<open>previous\<close> the value the reaction saw last (\<open>null\<close> at first, which
  \<open>None\<close> stands for as well).
\<close>

definition targetReaction :: "ident option \<Rightarrow> ident option \<Rightarrow> AnimatedKeyboard \<Rightarrow> AnimatedKeyboard" where
  "targetReaction result previous k =
     (if \<not> truthy result \<or> result = previous then k
      else
        (case temporaryCachedState k of
           None \<Rightarrow> k
         | Some cachedState \<Rightarrow>
             handleKeyboardEvent (status cachedState) (height cachedState)
               (duration cachedState) (easing cachedState) None k))"

text \<open>
  The writes of the collaborators. The text input assigns \<open>target\<close> and the sheet
  assigns \<open>heightWithinContainer\<close>; every write to \<open>state\<close> runs the reaction with
  the target after the write and the target before it.
\<close>

definition setTarget :: "ident option \<Rightarrow> AnimatedKeyboard \<Rightarrow> AnimatedKeyboard" where
  "setTarget t k = targetReaction t (target (state k)) (k\<lparr>state := (state k)\<lparr>target := t\<rparr>\<rparr>)"

definition setHeightWithinContainer :: "int \<Rightarrow> AnimatedKeyboard \<Rightarrow> AnimatedKeyboard" where
  "setHeightWithinContainer c k =
     targetReaction (target (state k)) (target (state k))
       (k\<lparr>state := (state k)\<lparr>heightWithinContainer := c\<rparr>\<rparr>)"

subsection \<open>Runs of the hook\<close>

datatype event =
    KeyboardShow KeyboardEvent
  | KeyboardHide KeyboardEvent
  | ControllerShow ControllerEvent
  | ControllerHide ControllerEvent
  | TargetSet "ident option"
  | ContainerHeightSet int

text \<open>
  One event. A handler's commit is a write to \<open>state\<close> as well, so the reaction runs
  after it; the handler never changes the target, so the reaction sees the same value
  twice.
\<close>

definition react :: "AnimatedKeyboard \<Rightarrow> AnimatedKeyboard \<Rightarrow> AnimatedKeyboard" where
  "react before after = targetReaction (target (state after)) (target (state before)) after"

fun step :: "int \<Rightarrow> event \<Rightarrow> AnimatedKeyboard \<Rightarrow> AnimatedKeyboard" where
  "step S (KeyboardShow ev) k = react k (handleOnKeyboardShow S ev k)"
| "step S (KeyboardHide ev) k = react k (handleOnKeyboardHide ev k)"
| "step S (ControllerShow ev) k = react k (handleOnKeyboardShow_controller ev k)"
| "step S (ControllerHide ev) k = react k (handleOnKeyboardHide_controller ev k)"
| "step S (TargetSet t) k = setTarget t k"
| "step S (ContainerHeightSet c) k = setHeightWithinContainer c k"

fun run :: "int \<Rightarrow> event list \<Rightarrow> AnimatedKeyboard \<Rightarrow> AnimatedKeyboard" where
  "run S [] k = k"
| "run S (ev # evs) k = run S evs (step S ev k)"

fun is_hide :: "event \<Rightarrow> bool" where
  "is_hide (KeyboardHide ev) = True"
| "is_hide (ControllerHide ev) = True"
| "is_hide ev = False"

fun is_show :: "event \<Rightarrow> bool" where
  "is_show (KeyboardShow ev) = True"
| "is_show (ControllerShow ev) = True"
| "is_show ev = False"

text \<open>The cache holds nothing or a show event.\<close>

definition cached_shown :: "AnimatedKeyboard \<Rightarrow> bool" where
  "cached_shown k =
     (case temporaryCachedState k of None \<Rightarrow> True | Some c \<Rightarrow> status c = SHOWN)"

section \<open>Properties\<close>

subsection \<open>Helper facts\<close>

lemma handleKeyboardEvent_cache:
  "st = SHOWN \<Longrightarrow> \<not> truthy (target (state k)) \<Longrightarrow>
   handleKeyboardEvent st h d e b k =
     k\<lparr>temporaryCachedState := Some \<lparr>status = st, height = h, duration = d, easing = e\<rparr>\<rparr>"
  by (simp add: handleKeyboardEvent_def)

lemma handleKeyboardEvent_frame:
  "target (state (handleKeyboardEvent st h d e b k)) = target (state k) \<and>
   heightWithinContainer (state (handleKeyboardEvent st h d e b k)) =
     heightWithinContainer (state k)"
  by (simp add: handleKeyboardEvent_def Let_def)

lemma handleKeyboardEvent_commit:
  "st \<noteq> SHOWN \<or> truthy (target (state k)) \<Longrightarrow>
   handleKeyboardEvent st h d e b k =
     \<lparr>state =
        \<lparr>status = st,
         height = (if st = SHOWN then h else height (state k)) + (case b of None \<Rightarrow> 0 | Some x \<Rightarrow> x),
         duration = d, easing = e,
         heightWithinContainer = heightWithinContainer (state k),
         target = target (state k)\<rparr>,
      temporaryCachedState = None\<rparr>"
  by (auto simp: handleKeyboardEvent_def Let_def split: option.splits)

lemma targetReaction_same: "targetReaction t t k = k"
  by (simp add: targetReaction_def)

lemma targetReaction_falsy: "\<not> truthy t \<Longrightarrow> targetReaction t p k = k"
  by (simp add: targetReaction_def)

lemma targetReaction_frame:
  "target (state (targetReaction r p k)) = target (state k) \<and>
   heightWithinContainer (state (targetReaction r p k)) = heightWithinContainer (state k)"
  by (simp add: targetReaction_def handleKeyboardEvent_frame split: option.splits)

lemma react_handleKeyboardEvent:
  "react k (handleKeyboardEvent st h d e b k) = handleKeyboardEvent st h d e b k"
  by (simp add: react_def handleKeyboardEvent_frame targetReaction_same)

lemma hide_handlers_height:
  "height (state (handleOnKeyboardHide ev k)) = height (state k)"
  "height (state (handleOnKeyboardHide_controller cev k)) = height (state k)"
  by (simp_all add: handleOnKeyboardHide_def handleOnKeyboardHide_controller_def
      handleKeyboardEvent_commit)

lemma show_handlers_height:
  "truthy (target (state k)) \<Longrightarrow>
   height (state (handleOnKeyboardShow S ev k)) =
     ec_height (endCoordinates ev) +
       (S - ec_height (endCoordinates ev) - screenY (endCoordinates ev))"
  "truthy (target (state k)) \<Longrightarrow>
   height (state (handleOnKeyboardShow_controller cev k)) = kc_height cev"
  by (simp_all add: handleOnKeyboardShow_def handleOnKeyboardShow_controller_def
      handleKeyboardEvent_commit)

lemma react_handler [simp]:
  "react k (handleOnKeyboardShow S ev k) = handleOnKeyboardShow S ev k"
  "react k (handleOnKeyboardHide ev k) = handleOnKeyboardHide ev k"
  "react k (handleOnKeyboardShow_controller cev k) = handleOnKeyboardShow_controller cev k"
  "react k (handleOnKeyboardHide_controller cev k) = handleOnKeyboardHide_controller cev k"
  by (simp_all add: handleOnKeyboardShow_def handleOnKeyboardHide_def
      handleOnKeyboardShow_controller_def handleOnKeyboardHide_controller_def
      react_handleKeyboardEvent)

lemma step_hide_height: "is_hide ev \<Longrightarrow> height (state (step S ev k)) = height (state k)"
  by (cases ev) (simp_all add: hide_handlers_height)

lemma step_keyboard_target:
  "is_show ev \<or> is_hide ev \<Longrightarrow> target (state (step S ev k)) = target (state k)"
  by (cases ev)
    (simp_all add: handleOnKeyboardShow_def handleOnKeyboardHide_def
      handleOnKeyboardShow_controller_def handleOnKeyboardHide_controller_def
      handleKeyboardEvent_frame react_handleKeyboardEvent)

lemma run_append: "run S (xs @ ys) k = run S ys (run S xs k)"
  by (induction xs arbitrary: k) simp_all

lemma run_hides_height:
  "list_all is_hide hs \<Longrightarrow> height (state (run S hs k)) = height (state k)"
  by (induction hs arbitrary: k) (simp_all add: step_hide_height)

lemma run_keyboard_target:
  "list_all (\<lambda>ev. is_show ev \<or> is_hide ev) evs \<Longrightarrow>
   target (state (run S evs k)) = target (state k)"
  by (induction evs arbitrary: k) (simp_all add: step_keyboard_target)

lemma cached_shown_handleKeyboardEvent: "cached_shown (handleKeyboardEvent st h d e b k)"
  by (simp add: cached_shown_def handleKeyboardEvent_def Let_def)

lemma cached_shown_targetReaction:
  "cached_shown k \<Longrightarrow> cached_shown (targetReaction r p k)"
  by (simp add: targetReaction_def cached_shown_handleKeyboardEvent split: option.splits)

lemma cached_shown_state_update: "cached_shown (k\<lparr>state := s\<rparr>) = cached_shown k"
  by (simp add: cached_shown_def)

lemma cached_shown_step: "cached_shown k \<Longrightarrow> cached_shown (step S ev k)"
proof (cases ev)
  case (TargetSet t)
  assume "cached_shown k"
  with TargetSet show ?thesis
    by (simp add: setTarget_def cached_shown_targetReaction cached_shown_state_update)
next
  case (ContainerHeightSet c)
  assume "cached_shown k"
  with ContainerHeightSet show ?thesis
    by (simp add: setHeightWithinContainer_def cached_shown_targetReaction
        cached_shown_state_update)
qed (simp_all add: handleOnKeyboardShow_def handleOnKeyboardHide_def
    handleOnKeyboardShow_controller_def handleOnKeyboardHide_controller_def
    react_handleKeyboardEvent cached_shown_handleKeyboardEvent)

lemma cached_shown_run: "cached_shown k \<Longrightarrow> cached_shown (run S evs k)"
  by (induction evs arbitrary: k) (simp_all add: cached_shown_step)

lemma cached_shown_initial: "cached_shown useAnimatedKeyboard"
  by (simp add: cached_shown_def useAnimatedKeyboard_def)

lemma setTarget_replay:
  assumes "truthy t"
    and "\<not> truthy (target (state k))"
    and "temporaryCachedState k = Some c"
  shows "setTarget t k =
           handleKeyboardEvent (status c) (height c) (duration c) (easing c) None
             (k\<lparr>state := (state k)\<lparr>target := t\<rparr>\<rparr>)"
proof -
  from assms(1,2) have "t \<noteq> target (state k)"
    by auto
  with assms(1,3) show ?thesis
    by (simp add: setTarget_def targetReaction_def)
qed

subsection \<open>A show event before the target is known\<close>

text \<open>
  C2. A call of \<open>handleKeyboardEvent\<close> with status \<open>SHOWN\<close> while the target is unset
  (undefined, or any other value the test \<open>!currentState.target\<close> accepts) leaves
  the whole keyboard state as it was and stores the event's status, height, duration
  and easing in the cache; the cached record has no field for \<open>bottomOffset\<close>. The
  same holds for the show handlers of both event sources.
\<close>

theorem show_without_target_is_cached:
  assumes "\<not> truthy (target (state k))"
  shows "state (handleKeyboardEvent SHOWN h d e b k) = state k \<and>
         temporaryCachedState (handleKeyboardEvent SHOWN h d e b k) =
           Some \<lparr>status = SHOWN, height = h, duration = d, easing = e\<rparr> \<and>
         state (handleOnKeyboardShow S ev k) = state k \<and>
         state (handleOnKeyboardShow_controller cev k) = state k"
  using assms
  by (simp add: handleKeyboardEvent_cache handleOnKeyboardShow_def
      handleOnKeyboardShow_controller_def)

theorem show_without_target_is_cached_witness:
  "\<not> truthy (target (state useAnimatedKeyboard)) \<and>
   state (handleKeyboardEvent SHOWN 280 (Some 250) (Some keyboard) (Some 24) useAnimatedKeyboard) =
     INITIAL_STATE \<and>
   temporaryCachedState
     (handleKeyboardEvent SHOWN 280 (Some 250) (Some keyboard) (Some 24) useAnimatedKeyboard) =
     Some \<lparr>status = SHOWN, height = 280, duration = Some 250, easing = Some keyboard\<rparr>"
proof -
  have unset: "\<not> truthy (target (state useAnimatedKeyboard))"
    by (simp add: useAnimatedKeyboard_def INITIAL_STATE_def)
  from show_without_target_is_cached [OF unset, of 280 "Some 250" "Some keyboard" "Some 24"]
  show ?thesis
    using unset by (simp add: useAnimatedKeyboard_def)
qed

subsection \<open>The fields the hook only reads\<close>

text \<open>
  C4. No operation of the hook writes \<open>target\<close> or \<open>heightWithinContainer\<close>: the
  worklet, whether it caches or commits, the four event handlers and the reaction all
  return a state that carries the previous values of both fields, for all inputs.
\<close>

theorem target_and_container_height_kept:
  "target (state (handleKeyboardEvent st h d e b k)) = target (state k) \<and>
   heightWithinContainer (state (handleKeyboardEvent st h d e b k)) =
     heightWithinContainer (state k) \<and>
   target (state (handleOnKeyboardShow S ev k)) = target (state k) \<and>
   heightWithinContainer (state (handleOnKeyboardShow S ev k)) = heightWithinContainer (state k) \<and>
   target (state (handleOnKeyboardHide ev k)) = target (state k) \<and>
   heightWithinContainer (state (handleOnKeyboardHide ev k)) = heightWithinContainer (state k) \<and>
   target (state (handleOnKeyboardShow_controller cev k)) = target (state k) \<and>
   heightWithinContainer (state (handleOnKeyboardShow_controller cev k)) =
     heightWithinContainer (state k) \<and>
   target (state (handleOnKeyboardHide_controller cev k)) = target (state k) \<and>
   heightWithinContainer (state (handleOnKeyboardHide_controller cev k)) =
     heightWithinContainer (state k) \<and>
   target (state (targetReaction result previous k)) = target (state k) \<and>
   heightWithinContainer (state (targetReaction result previous k)) =
     heightWithinContainer (state k)"
  by (simp add: handleKeyboardEvent_frame targetReaction_frame handleOnKeyboardShow_def
      handleOnKeyboardHide_def handleOnKeyboardShow_controller_def
      handleOnKeyboardHide_controller_def)

theorem target_and_container_height_kept_witness:
  "target (state (handleKeyboardEvent HIDDEN 300 (Some 250) (Some keyboard) (Some 48)
      \<lparr>state = INITIAL_STATE\<lparr>heightWithinContainer := 120, target := Some (Num 7)\<rparr>,
       temporaryCachedState = None\<rparr>)) = Some (Num 7) \<and>
   heightWithinContainer (state (handleKeyboardEvent HIDDEN 300 (Some 250) (Some keyboard) (Some 48)
      \<lparr>state = INITIAL_STATE\<lparr>heightWithinContainer := 120, target := Some (Num 7)\<rparr>,
       temporaryCachedState = None\<rparr>)) = 120"
  using target_and_container_height_kept
    [of HIDDEN 300 "Some 250" "Some keyboard" "Some 48"
      "\<lparr>state = INITIAL_STATE\<lparr>heightWithinContainer := 120, target := Some (Num 7)\<rparr>,
        temporaryCachedState = None\<rparr>"]
  by simp

subsection \<open>The reaction\<close>

text \<open>
  C6. Assigning the target the value it already has replays nothing: when the reaction
  sees a result equal to the previous one, or a result that is unset, it applies no
  pending event, and the keyboard state and the cache stay as they are.
\<close>

theorem same_target_no_replay:
  assumes "result = previous \<or> \<not> truthy result"
  shows "targetReaction result previous k = k \<and> setTarget (target (state k)) k = k"
  using assms
  by (auto simp: setTarget_def targetReaction_same targetReaction_falsy)

theorem same_target_no_replay_witness:
  "targetReaction (Some (Str ''A'')) (Some (Str ''A''))
     \<lparr>state = INITIAL_STATE\<lparr>target := Some (Str ''A'')\<rparr>,
      temporaryCachedState =
        Some \<lparr>status = SHOWN, height = 280, duration = Some 250, easing = Some keyboard\<rparr>\<rparr> =
     \<lparr>state = INITIAL_STATE\<lparr>target := Some (Str ''A'')\<rparr>,
      temporaryCachedState =
        Some \<lparr>status = SHOWN, height = 280, duration = Some 250, easing = Some keyboard\<rparr>\<rparr>"
  using same_target_no_replay [of "Some (Str ''A'')" "Some (Str ''A'')"]
  by simp

text \<open>
  C1 (as amended). When the target goes from unset to a value that the test
  \<open>!result\<close> lets through (a number other than 0, a string other than the empty
  one) while an event is cached, the reaction, whatever unset value it saw before,
  calls \<open>handleKeyboardEvent\<close> with the cached status, height, duration and easing
  and no \<open>bottomOffset\<close>; that call commits, so the cache is cleared and the state
  takes the cached fields and keeps the new target. For the cached event
  \<open>{SHOWN, 280, 250, 'keyboard'}\<close> and the target \<open>"A"\<close> the state becomes
  \<open>{SHOWN, 280, 250, 'keyboard', target: "A"}\<close>. A target of \<open>0\<close> or \<open>""\<close>
  is a defined value, but it replays nothing.
\<close>

theorem target_set_replays_cached_event:
  assumes "truthy t"
    and "\<not> truthy (target (state k))"
    and "temporaryCachedState k = Some c"
  shows "(\<forall>previous. \<not> truthy previous \<longrightarrow>
            targetReaction t previous (k\<lparr>state := (state k)\<lparr>target := t\<rparr>\<rparr>) =
              handleKeyboardEvent (status c) (height c) (duration c) (easing c) None
                (k\<lparr>state := (state k)\<lparr>target := t\<rparr>\<rparr>)) \<and>
         setTarget t k =
           handleKeyboardEvent (status c) (height c) (duration c) (easing c) None
             (k\<lparr>state := (state k)\<lparr>target := t\<rparr>\<rparr>) \<and>
         temporaryCachedState (setTarget t k) = None \<and>
         state (setTarget t k) =
           \<lparr>status = status c,
            height = (if status c = SHOWN then height c else height (state k)),
            duration = duration c, easing = easing c,
            heightWithinContainer = heightWithinContainer (state k),
            target = t\<rparr>"
proof -
  let ?k = "k\<lparr>state := (state k)\<lparr>target := t\<rparr>\<rparr>"
  have replay: "targetReaction t previous ?k =
      handleKeyboardEvent (status c) (height c) (duration c) (easing c) None ?k"
    if "\<not> truthy previous" for previous
  proof -
    from that assms(1) have "t \<noteq> previous"
      by auto
    with assms(1,3) show ?thesis
      by (simp add: targetReaction_def)
  qed
  from replay [OF assms(2)] have set: "setTarget t k =
      handleKeyboardEvent (status c) (height c) (duration c) (easing c) None ?k"
    by (simp add: setTarget_def)
  from assms(1) have "status c \<noteq> SHOWN \<or> truthy (target (state ?k))"
    by simp
  from handleKeyboardEvent_commit [OF this] set replay
  show ?thesis
    by simp
qed

theorem target_set_replays_cached_event_witness:
  "truthy (Some (Str ''A'')) \<and>
   \<not> truthy (target (state
     (handleOnKeyboardShow_controller \<lparr>kc_height = 280, kc_duration = None\<rparr>
        useAnimatedKeyboard))) \<and>
   temporaryCachedState
     (handleOnKeyboardShow_controller \<lparr>kc_height = 280, kc_duration = None\<rparr>
        useAnimatedKeyboard) =
     Some \<lparr>status = SHOWN, height = 280, duration = Some 250, easing = Some keyboard\<rparr> \<and>
   state (setTarget (Some (Str ''A''))
     (handleOnKeyboardShow_controller \<lparr>kc_height = 280, kc_duration = None\<rparr>
        useAnimatedKeyboard)) =
     \<lparr>status = SHOWN, height = 280, duration = Some 250, easing = Some keyboard,
      heightWithinContainer = 0, target = Some (Str ''A'')\<rparr> \<and>
   temporaryCachedState (setTarget (Some (Str ''A''))
     (handleOnKeyboardShow_controller \<lparr>kc_height = 280, kc_duration = None\<rparr>
        useAnimatedKeyboard)) = None"
proof -
  let ?k = "handleOnKeyboardShow_controller \<lparr>kc_height = 280, kc_duration = None\<rparr>
    useAnimatedKeyboard"
  let ?c = "\<lparr>status = SHOWN, height = 280, duration = Some 250, easing = Some keyboard\<rparr>"
  have set: "truthy (Some (Str ''A''))"
    by simp
  have unset: "\<not> truthy (target (state ?k))"
    by (simp add: handleOnKeyboardShow_controller_def handleKeyboardEvent_def
        useAnimatedKeyboard_def INITIAL_STATE_def)
  have cached: "temporaryCachedState ?k = Some ?c"
    by (simp add: handleOnKeyboardShow_controller_def handleKeyboardEvent_def
        useAnimatedKeyboard_def INITIAL_STATE_def)
  have kept: "height (state ?k) = 0" "heightWithinContainer (state ?k) = 0"
    by (simp_all add: handleOnKeyboardShow_controller_def handleKeyboardEvent_def
        useAnimatedKeyboard_def INITIAL_STATE_def)
  from target_set_replays_cached_event
    [OF set unset cached, THEN conjunct2, THEN conjunct2] set unset cached kept
  show ?thesis
    by simp
qed

text \<open>
  The claim as it is written fails for the defined target \<open>0\<close>: a show event is
  cached, the target is set to \<open>0\<close>, and the event is still in the cache with the
  status still \<open>UNDETERMINED\<close>.
\<close>

theorem target_zero_replays_nothing:
  "temporaryCachedState
     (setTarget (Some (Num 0))
        (handleOnKeyboardShow_controller \<lparr>kc_height = 280, kc_duration = Some 250\<rparr>
           useAnimatedKeyboard)) =
     Some \<lparr>status = SHOWN, height = 280, duration = Some 250, easing = Some keyboard\<rparr> \<and>
   status (state
     (setTarget (Some (Num 0))
        (handleOnKeyboardShow_controller \<lparr>kc_height = 280, kc_duration = Some 250\<rparr>
           useAnimatedKeyboard))) = UNDETERMINED \<and>
   target (state
     (setTarget (Some (Num 0))
        (handleOnKeyboardShow_controller \<lparr>kc_height = 280, kc_duration = Some 250\<rparr>
           useAnimatedKeyboard))) = Some (Num 0)"
  by (simp add: setTarget_def targetReaction_def handleOnKeyboardShow_controller_def
      handleKeyboardEvent_def useAnimatedKeyboard_def INITIAL_STATE_def)

subsection \<open>The committed height\<close>

text \<open>
  C3. The worklet is private to the hook and is called from five places: the two show
  handlers (status \<open>SHOWN\<close>, with an offset), the two hide handlers (status
  \<open>HIDDEN\<close>, without one) and the reaction (the cached status, without one). A
  \<open>SHOWN\<close> call commits when the target is set, and the committed height is the
  event's height plus the offset when one is given; a \<open>HIDDEN\<close> call always
  commits, and the committed height is the previous height. So hide events never move
  the height: in every sequence of events, the height after a show event followed by
  hide events is the height that show event left, and with the target already set that
  is the height the show event reports plus the offset of its source.
\<close>

theorem committed_height:
  "(truthy (target (state k)) \<longrightarrow>
      height (state (handleKeyboardEvent SHOWN h d e b k)) =
        h + (case b of None \<Rightarrow> 0 | Some x \<Rightarrow> x)) \<and>
   height (state (handleKeyboardEvent HIDDEN h d e None k)) = height (state k) \<and>
   height (state (handleOnKeyboardHide ev k)) = height (state k) \<and>
   height (state (handleOnKeyboardHide_controller cev k)) = height (state k) \<and>
   (truthy (target (state k)) \<longrightarrow>
      height (state (handleOnKeyboardShow S ev k)) =
        ec_height (endCoordinates ev) +
          (S - ec_height (endCoordinates ev) - screenY (endCoordinates ev)) \<and>
      height (state (handleOnKeyboardShow_controller cev k)) = kc_height cev + 0) \<and>
   (list_all is_hide hs \<longrightarrow>
      height (state (run S (pre @ s # hs) k)) = height (state (run S (pre @ [s]) k))) \<and>
   (truthy (target (state k)) \<and> list_all (\<lambda>ev. is_show ev \<or> is_hide ev) pre \<longrightarrow>
      height (state (run S (pre @ [KeyboardShow ev]) k)) =
        ec_height (endCoordinates ev) +
          (S - ec_height (endCoordinates ev) - screenY (endCoordinates ev)) \<and>
      height (state (run S (pre @ [ControllerShow cev]) k)) = kc_height cev + 0)"
proof (intro conjI impI)
  assume "truthy (target (state k))"
  then show "height (state (handleKeyboardEvent SHOWN h d e b k)) =
      h + (case b of None \<Rightarrow> 0 | Some x \<Rightarrow> x)"
    by (simp add: handleKeyboardEvent_commit)
next
  show "height (state (handleKeyboardEvent HIDDEN h d e None k)) = height (state k)"
    by (simp add: handleKeyboardEvent_commit)
next
  show "height (state (handleOnKeyboardHide ev k)) = height (state k)"
    by (rule hide_handlers_height)
next
  show "height (state (handleOnKeyboardHide_controller cev k)) = height (state k)"
    by (rule hide_handlers_height)
next
  assume "truthy (target (state k))"
  then show "height (state (handleOnKeyboardShow S ev k)) =
      ec_height (endCoordinates ev) +
        (S - ec_height (endCoordinates ev) - screenY (endCoordinates ev))"
    by (rule show_handlers_height)
next
  assume "truthy (target (state k))"
  then show "height (state (handleOnKeyboardShow_controller cev k)) = kc_height cev + 0"
    by (simp add: show_handlers_height)
next
  assume hides: "list_all is_hide hs"
  have "run S (pre @ s # hs) k = run S hs (run S (pre @ [s]) k)"
    by (simp add: run_append)
  with hides show "height (state (run S (pre @ s # hs) k)) = height (state (run S (pre @ [s]) k))"
    by (simp add: run_hides_height)
next
  assume "truthy (target (state k)) \<and> list_all (\<lambda>ev. is_show ev \<or> is_hide ev) pre"
  then have "truthy (target (state (run S pre k)))"
    by (simp add: run_keyboard_target)
  then show "height (state (run S (pre @ [KeyboardShow ev]) k)) =
      ec_height (endCoordinates ev) +
        (S - ec_height (endCoordinates ev) - screenY (endCoordinates ev))"
    by (simp add: run_append show_handlers_height)
next
  assume "truthy (target (state k)) \<and> list_all (\<lambda>ev. is_show ev \<or> is_hide ev) pre"
  then have "truthy (target (state (run S pre k)))"
    by (simp add: run_keyboard_target)
  then show "height (state (run S (pre @ [ControllerShow cev]) k)) = kc_height cev + 0"
    by (simp add: run_append show_handlers_height)
qed

text \<open>
  A run of the fallback source alone on a hook whose target has been set to 7: show
  (250 at 550), hide, show (300 at 452, so an offset of 48), hide. The height after the
  last hide is the 348 the second show committed.
\<close>

theorem committed_height_witness:
  "truthy (target (state (setTarget (Some (Num 7)) useAnimatedKeyboard))) \<and>
   height (state (run 800
     ([KeyboardShow \<lparr>endCoordinates = \<lparr>ec_height = 250, screenY = 550\<rparr>,
         ev_duration = Some 250, ev_easing = Some keyboard\<rparr>,
       KeyboardHide \<lparr>endCoordinates = \<lparr>ec_height = 0, screenY = 800\<rparr>,
         ev_duration = Some 250, ev_easing = Some keyboard\<rparr>] @
      [KeyboardShow \<lparr>endCoordinates = \<lparr>ec_height = 300, screenY = 452\<rparr>,
        ev_duration = Some 250, ev_easing = Some keyboard\<rparr>])
     (setTarget (Some (Num 7)) useAnimatedKeyboard))) = 348 \<and>
   height (state (run 800
     ([KeyboardShow \<lparr>endCoordinates = \<lparr>ec_height = 250, screenY = 550\<rparr>,
         ev_duration = Some 250, ev_easing = Some keyboard\<rparr>,
       KeyboardHide \<lparr>endCoordinates = \<lparr>ec_height = 0, screenY = 800\<rparr>,
         ev_duration = Some 250, ev_easing = Some keyboard\<rparr>] @
      KeyboardShow \<lparr>endCoordinates = \<lparr>ec_height = 300, screenY = 452\<rparr>,
        ev_duration = Some 250, ev_easing = Some keyboard\<rparr> #
      [KeyboardHide \<lparr>endCoordinates = \<lparr>ec_height = 0, screenY = 800\<rparr>,
        ev_duration = Some 250, ev_easing = Some keyboard\<rparr>])
     (setTarget (Some (Num 7)) useAnimatedKeyboard))) = 348"
proof -
  let ?k = "setTarget (Some (Num 7)) useAnimatedKeyboard"
  let ?pre = "[KeyboardShow \<lparr>endCoordinates = \<lparr>ec_height = 250, screenY = 550\<rparr>,
         ev_duration = Some 250, ev_easing = Some keyboard\<rparr>,
       KeyboardHide \<lparr>endCoordinates = \<lparr>ec_height = 0, screenY = 800\<rparr>,
         ev_duration = Some 250, ev_easing = Some keyboard\<rparr>]"
  let ?ev = "\<lparr>endCoordinates = \<lparr>ec_height = 300, screenY = 452\<rparr>,
        ev_duration = Some 250, ev_easing = Some keyboard\<rparr>"
  let ?hs = "[KeyboardHide \<lparr>endCoordinates = \<lparr>ec_height = 0, screenY = 800\<rparr>,
        ev_duration = Some 250, ev_easing = Some keyboard\<rparr>]"
  have set: "truthy (target (state ?k))"
    by (simp add: setTarget_def targetReaction_def useAnimatedKeyboard_def INITIAL_STATE_def)
  have pre: "list_all (\<lambda>ev. is_show ev \<or> is_hide ev) ?pre"
    by simp
  have hides: "list_all is_hide ?hs"
    by simp
  note h = committed_height [of ?k _ _ _ _ ?ev _ 800 ?hs ?pre "KeyboardShow ?ev"]
  from h set pre have shown: "height (state (run 800 (?pre @ [KeyboardShow ?ev]) ?k)) =
      300 + (800 - 300 - 452)"
    by simp
  from h hides have "height (state (run 800 (?pre @ KeyboardShow ?ev # ?hs) ?k)) =
      height (state (run 800 (?pre @ [KeyboardShow ?ev]) ?k))"
    by blast
  with shown set show ?thesis
    by simp
qed

subsection \<open>Where the bottom offset comes from\<close>

text \<open>
  C5. Only the show handler of React Native's \<open>Keyboard\<close> passes an offset that can
  change the height. Both hide handlers pass none and leave the height as it was. The
  keyboard-controller show handler passes 0, which is the same as passing none, so with
  the target set it commits exactly the height the event reports. With the target set
  the primary show handler commits the reported height plus
  \<open>SCREEN_HEIGHT - height - screenY\<close>; without a target no show handler changes the
  height.
\<close>

theorem offset_only_from_primary_show:
  "height (state (handleOnKeyboardHide ev k)) = height (state k) \<and>
   height (state (handleOnKeyboardHide_controller cev k)) = height (state k) \<and>
   handleOnKeyboardShow_controller cev k =
     handleKeyboardEvent SHOWN (kc_height cev)
       (Some (case kc_duration cev of None \<Rightarrow> 250 | Some x \<Rightarrow> x)) (Some keyboard) None k \<and>
   (truthy (target (state k)) \<longrightarrow>
      height (state (handleOnKeyboardShow_controller cev k)) = kc_height cev \<and>
      height (state (handleOnKeyboardShow S ev k)) =
        ec_height (endCoordinates ev) +
          (S - ec_height (endCoordinates ev) - screenY (endCoordinates ev))) \<and>
   (\<not> truthy (target (state k)) \<longrightarrow>
      height (state (handleOnKeyboardShow_controller cev k)) = height (state k) \<and>
      height (state (handleOnKeyboardShow S ev k)) = height (state k))"
proof (intro conjI impI)
  show "handleOnKeyboardShow_controller cev k =
      handleKeyboardEvent SHOWN (kc_height cev)
        (Some (case kc_duration cev of None \<Rightarrow> 250 | Some x \<Rightarrow> x)) (Some keyboard) None k"
    by (simp add: handleOnKeyboardShow_controller_def handleKeyboardEvent_def Let_def)
next
  assume "\<not> truthy (target (state k))"
  then show "height (state (handleOnKeyboardShow_controller cev k)) = height (state k)"
    and "height (state (handleOnKeyboardShow S ev k)) = height (state k)"
    by (simp_all add: handleOnKeyboardShow_def handleOnKeyboardShow_controller_def
        handleKeyboardEvent_cache)
qed (simp_all add: hide_handlers_height show_handlers_height)

theorem offset_only_from_primary_show_witness:
  "truthy (target (state \<lparr>state = INITIAL_STATE\<lparr>target := Some (Num 7)\<rparr>,
      temporaryCachedState = None\<rparr>)) \<and>
   height (state (handleOnKeyboardShow_controller \<lparr>kc_height = 300, kc_duration = None\<rparr>
     \<lparr>state = INITIAL_STATE\<lparr>target := Some (Num 7)\<rparr>, temporaryCachedState = None\<rparr>)) = 300 \<and>
   height (state (handleOnKeyboardShow 800
     \<lparr>endCoordinates = \<lparr>ec_height = 300, screenY = 452\<rparr>,
       ev_duration = Some 250, ev_easing = Some keyboard\<rparr>
     \<lparr>state = INITIAL_STATE\<lparr>target := Some (Num 7)\<rparr>, temporaryCachedState = None\<rparr>)) = 348"
  using offset_only_from_primary_show
    [of "\<lparr>endCoordinates = \<lparr>ec_height = 300, screenY = 452\<rparr>,
          ev_duration = Some 250, ev_easing = Some keyboard\<rparr>"
      "\<lparr>state = INITIAL_STATE\<lparr>target := Some (Num 7)\<rparr>, temporaryCachedState = None\<rparr>"
      "\<lparr>kc_height = 300, kc_duration = None\<rparr>" 800]
  by (simp add: INITIAL_STATE_def handleKeyboardEvent_def handleOnKeyboardShow_def
      handleOnKeyboardShow_controller_def)

text \<open>
  C8. The primary show handler calls the worklet with the offset
  \<open>SCREEN_HEIGHT - endCoordinates.height - endCoordinates.screenY\<close>, whatever the
  state of the hook. For a screen height of 800 and end coordinates
  \<open>{height: 300, screenY: 500}\<close> the offset is 0. With a target set the call commits
  the height 300 at once. Without one it leaves the state alone and parks the event
  with height 300 in the cache, and the height 300 is committed as soon as a target is
  set.
\<close>

theorem bottom_offset_of_primary_show:
  "handleOnKeyboardShow S ev k =
     handleKeyboardEvent SHOWN (ec_height (endCoordinates ev)) (ev_duration ev) (ev_easing ev)
       (Some (S - ec_height (endCoordinates ev) - screenY (endCoordinates ev))) k \<and>
   handleOnKeyboardShow 800
     \<lparr>endCoordinates = \<lparr>ec_height = 300, screenY = 500\<rparr>, ev_duration = d, ev_easing = e\<rparr> k =
     handleKeyboardEvent SHOWN 300 d e (Some 0) k \<and>
   (truthy (target (state k)) \<longrightarrow>
      height (state (handleOnKeyboardShow S ev k)) =
        ec_height (endCoordinates ev) +
          (S - ec_height (endCoordinates ev) - screenY (endCoordinates ev)) \<and>
      state (handleOnKeyboardShow 800
        \<lparr>endCoordinates = \<lparr>ec_height = 300, screenY = 500\<rparr>,
         ev_duration = d, ev_easing = e\<rparr> k) =
        \<lparr>status = SHOWN, height = 300, duration = d, easing = e,
         heightWithinContainer = heightWithinContainer (state k),
         target = target (state k)\<rparr> \<and>
      temporaryCachedState (handleOnKeyboardShow 800
        \<lparr>endCoordinates = \<lparr>ec_height = 300, screenY = 500\<rparr>,
         ev_duration = d, ev_easing = e\<rparr> k) = None) \<and>
   (\<not> truthy (target (state k)) \<longrightarrow>
      state (handleOnKeyboardShow 800
        \<lparr>endCoordinates = \<lparr>ec_height = 300, screenY = 500\<rparr>,
         ev_duration = d, ev_easing = e\<rparr> k) = state k \<and>
      temporaryCachedState (handleOnKeyboardShow 800
        \<lparr>endCoordinates = \<lparr>ec_height = 300, screenY = 500\<rparr>,
         ev_duration = d, ev_easing = e\<rparr> k) =
        Some \<lparr>status = SHOWN, height = 300, duration = d, easing = e\<rparr> \<and>
      (\<forall>t. truthy t \<longrightarrow>
         state (setTarget t (handleOnKeyboardShow 800
           \<lparr>endCoordinates = \<lparr>ec_height = 300, screenY = 500\<rparr>,
            ev_duration = d, ev_easing = e\<rparr> k)) =
           \<lparr>status = SHOWN, height = 300, duration = d, easing = e,
            heightWithinContainer = heightWithinContainer (state k), target = t\<rparr>))"
proof (intro conjI impI allI)
  let ?ev = "\<lparr>endCoordinates = \<lparr>ec_height = 300, screenY = 500\<rparr>,
    ev_duration = d, ev_easing = e\<rparr>"
  show call: "handleOnKeyboardShow S ev k =
      handleKeyboardEvent SHOWN (ec_height (endCoordinates ev)) (ev_duration ev) (ev_easing ev)
        (Some (S - ec_height (endCoordinates ev) - screenY (endCoordinates ev))) k"
    by (simp add: handleOnKeyboardShow_def)
  show example: "handleOnKeyboardShow 800 ?ev k = handleKeyboardEvent SHOWN 300 d e (Some 0) k"
    by (simp add: handleOnKeyboardShow_def)
  {
    assume set: "truthy (target (state k))"
    then show "height (state (handleOnKeyboardShow S ev k)) =
        ec_height (endCoordinates ev) +
          (S - ec_height (endCoordinates ev) - screenY (endCoordinates ev))"
      by (rule show_handlers_height)
    from set show "state (handleOnKeyboardShow 800 ?ev k) =
        \<lparr>status = SHOWN, height = 300, duration = d, easing = e,
         heightWithinContainer = heightWithinContainer (state k),
         target = target (state k)\<rparr>"
      by (simp add: example handleKeyboardEvent_commit)
    from set show "temporaryCachedState (handleOnKeyboardShow 800 ?ev k) = None"
      by (simp add: example handleKeyboardEvent_commit)
  }
  {
    assume unset: "\<not> truthy (target (state k))"
    then have parked: "handleOnKeyboardShow 800 ?ev k =
        k\<lparr>temporaryCachedState := Some \<lparr>status = SHOWN, height = 300, duration = d, easing = e\<rparr>\<rparr>"
      by (simp add: example handleKeyboardEvent_cache)
    then show "state (handleOnKeyboardShow 800 ?ev k) = state k"
      by simp
    from parked show "temporaryCachedState (handleOnKeyboardShow 800 ?ev k) =
        Some \<lparr>status = SHOWN, height = 300, duration = d, easing = e\<rparr>"
      by simp
    fix t
    assume t: "truthy t"
    let ?k = "k\<lparr>temporaryCachedState :=
      Some \<lparr>status = SHOWN, height = 300, duration = d, easing = e\<rparr>\<rparr>"
    from unset have "\<not> truthy (target (state ?k))"
      by simp
    from setTarget_replay [OF t this, of "\<lparr>status = SHOWN, height = 300, duration = d, easing = e\<rparr>"]
    have "setTarget t ?k =
        handleKeyboardEvent SHOWN 300 d e None (?k\<lparr>state := (state ?k)\<lparr>target := t\<rparr>\<rparr>)"
      by simp
    moreover from t have "SHOWN \<noteq> SHOWN \<or> truthy (target (state (?k\<lparr>state := (state ?k)\<lparr>target := t\<rparr>\<rparr>)))"
      by simp
    note handleKeyboardEvent_commit [OF this, of 300 d e None]
    ultimately show "state (setTarget t (handleOnKeyboardShow 800 ?ev k)) =
        \<lparr>status = SHOWN, height = 300, duration = d, easing = e,
         heightWithinContainer = heightWithinContainer (state k), target = t\<rparr>"
      by (simp add: parked)
  }
qed

text \<open>
  On a fresh hook the example event is parked, and setting the target to \<open>"A"\<close>
  commits the height 300.
\<close>

theorem bottom_offset_of_primary_show_witness:
  "\<not> truthy (target (state useAnimatedKeyboard)) \<and> truthy (Some (Str ''A'')) \<and>
   state (setTarget (Some (Str ''A'')) (handleOnKeyboardShow 800
     \<lparr>endCoordinates = \<lparr>ec_height = 300, screenY = 500\<rparr>,
      ev_duration = Some 250, ev_easing = Some keyboard\<rparr> useAnimatedKeyboard)) =
     \<lparr>status = SHOWN, height = 300, duration = Some 250, easing = Some keyboard,
      heightWithinContainer = 0, target = Some (Str ''A'')\<rparr>"
proof -
  have unset: "\<not> truthy (target (state useAnimatedKeyboard))"
    by (simp add: useAnimatedKeyboard_def INITIAL_STATE_def)
  have set: "truthy (Some (Str ''A''))"
    by simp
  from bottom_offset_of_primary_show [of _ _ useAnimatedKeyboard "Some 250" "Some keyboard"]
    unset
  have "\<forall>t. truthy t \<longrightarrow>
      state (setTarget t (handleOnKeyboardShow 800
        \<lparr>endCoordinates = \<lparr>ec_height = 300, screenY = 500\<rparr>,
         ev_duration = Some 250, ev_easing = Some keyboard\<rparr> useAnimatedKeyboard)) =
        \<lparr>status = SHOWN, height = 300, duration = Some 250, easing = Some keyboard,
         heightWithinContainer = heightWithinContainer (state useAnimatedKeyboard),
         target = t\<rparr>"
    by blast
  with set unset show ?thesis
    by (simp add: useAnimatedKeyboard_def INITIAL_STATE_def)
qed

subsection \<open>The initial state\<close>

text \<open>
  C9 (as amended). The hook starts with the fixed state \<open>INITIAL_STATE\<close>: status
  \<open>UNDETERMINED\<close>, height 0, height within the container 0, no target, the easing
  \<open>'keyboard'\<close> (the token the keyboard-controller handlers supply) and the duration
  500 ms, which is not the 250 ms the handlers use as default; the cache starts empty.
\<close>

theorem initial_keyboard_state:
  "state useAnimatedKeyboard =
     \<lparr>status = UNDETERMINED, height = 0, duration = Some 500, easing = Some keyboard,
      heightWithinContainer = 0, target = None\<rparr> \<and>
   temporaryCachedState useAnimatedKeyboard = None \<and>
   easing (state (handleOnKeyboardHide_controller cev useAnimatedKeyboard)) =
     easing (state useAnimatedKeyboard)"
  by (simp add: useAnimatedKeyboard_def INITIAL_STATE_def handleOnKeyboardHide_controller_def
      handleKeyboardEvent_def)

text \<open>
  The claim as it is written fails on the duration: the initial duration is 500, and
  the first keyboard-controller hide event without a duration replaces it by the
  default of 250.
\<close>

theorem initial_duration_is_not_the_default:
  "duration (state useAnimatedKeyboard) = Some 500 \<and>
   duration (state useAnimatedKeyboard) \<noteq> Some 250 \<and>
   duration (state (handleOnKeyboardHide_controller \<lparr>kc_height = 0, kc_duration = None\<rparr>
     useAnimatedKeyboard)) = Some 250"
  by (simp add: useAnimatedKeyboard_def INITIAL_STATE_def handleOnKeyboardHide_controller_def
      handleKeyboardEvent_def)

subsection \<open>The cache\<close>

text \<open>
  C10. Whatever events arrive, from either source and interleaved with writes of the
  target and of the container height, the cache holds nothing or an event with status
  \<open>SHOWN\<close>. Every call of the worklet leaves the cache empty or holding exactly the
  \<open>SHOWN\<close> event of that call, and a hide handler always leaves it empty. When two
  \<open>SHOWN\<close> calls arrive while the target is unset, the cache holds the fields of the
  second.
\<close>

theorem cache_holds_only_shown_events:
  "cached_shown (run S evs useAnimatedKeyboard) \<and>
   (temporaryCachedState (handleKeyboardEvent st h d e b k) = None \<or>
    st = SHOWN \<and>
    temporaryCachedState (handleKeyboardEvent st h d e b k) =
      Some \<lparr>status = SHOWN, height = h, duration = d, easing = e\<rparr>) \<and>
   temporaryCachedState (handleOnKeyboardHide ev k) = None \<and>
   temporaryCachedState (handleOnKeyboardHide_controller cev k) = None \<and>
   (\<not> truthy (target (state k)) \<longrightarrow>
      temporaryCachedState
        (handleKeyboardEvent SHOWN h2 d2 e2 b2 (handleKeyboardEvent SHOWN h d e b k)) =
        Some \<lparr>status = SHOWN, height = h2, duration = d2, easing = e2\<rparr>)"
proof (intro conjI impI)
  show "cached_shown (run S evs useAnimatedKeyboard)"
    by (rule cached_shown_run [OF cached_shown_initial])
next
  show "temporaryCachedState (handleKeyboardEvent st h d e b k) = None \<or>
    st = SHOWN \<and>
    temporaryCachedState (handleKeyboardEvent st h d e b k) =
      Some \<lparr>status = SHOWN, height = h, duration = d, easing = e\<rparr>"
    by (simp add: handleKeyboardEvent_def Let_def)
next
  show "temporaryCachedState (handleOnKeyboardHide ev k) = None"
    by (simp add: handleOnKeyboardHide_def handleKeyboardEvent_commit)
next
  show "temporaryCachedState (handleOnKeyboardHide_controller cev k) = None"
    by (simp add: handleOnKeyboardHide_controller_def handleKeyboardEvent_commit)
next
  assume "\<not> truthy (target (state k))"
  then show "temporaryCachedState
      (handleKeyboardEvent SHOWN h2 d2 e2 b2 (handleKeyboardEvent SHOWN h d e b k)) =
      Some \<lparr>status = SHOWN, height = h2, duration = d2, easing = e2\<rparr>"
    by (simp add: handleKeyboardEvent_cache)
qed

theorem cache_holds_only_shown_events_witness:
  "\<not> truthy (target (state useAnimatedKeyboard)) \<and>
   cached_shown (run 800
     [ControllerHide \<lparr>kc_height = 0, kc_duration = None\<rparr>,
      ControllerShow \<lparr>kc_height = 280, kc_duration = None\<rparr>,
      ControllerShow \<lparr>kc_height = 300, kc_duration = Some 200\<rparr>] useAnimatedKeyboard) \<and>
   temporaryCachedState
     (handleKeyboardEvent SHOWN 300 (Some 200) (Some keyboard) (Some 0)
        (handleKeyboardEvent SHOWN 280 (Some 250) (Some keyboard) (Some 0) useAnimatedKeyboard)) =
     Some \<lparr>status = SHOWN, height = 300, duration = Some 200, easing = Some keyboard\<rparr>"
  using cache_holds_only_shown_events
    [of 800
      "[ControllerHide \<lparr>kc_height = 0, kc_duration = None\<rparr>,
        ControllerShow \<lparr>kc_height = 280, kc_duration = None\<rparr>,
        ControllerShow \<lparr>kc_height = 300, kc_duration = Some 200\<rparr>]"
      SHOWN 280 "Some 250" "Some keyboard" "Some 0" useAnimatedKeyboard
      "\<lparr>endCoordinates = \<lparr>ec_height = 0, screenY = 800\<rparr>, ev_duration = None, ev_easing = None\<rparr>"
      "\<lparr>kc_height = 0, kc_duration = None\<rparr>"
      300 "Some 200" "Some keyboard" "Some 0"]
  by (simp add: useAnimatedKeyboard_def INITIAL_STATE_def)

end
